theory Spec2Isabelle
  imports Main "HOL-Library.Word"
begin

section \<open>The script build\_demosaic\_nb.py\<close>

text \<open>
  The script is a straight line of four steps:
  \<^verbatim>\<open>
  with open('CP-Math-Demosaic.ipynb', 'r') as f:
      notebook = json.load(f)
  cells = notebook["cells"]
  print(f"Starting with {len(cells)} cell(s)")
  \<close>
  Its effects (opening, reading and closing a file, printing a line) are modelled by
  explicit state passing over a record of the process's world; every exception the
  steps can raise is a value of the type \<open>error\<close>.
\<close>

subsection \<open>Python values\<close>

text \<open>
  A Python \<open>str\<close> is a sequence of Unicode code points, and \<open>len\<close> counts code
  points; so a \<open>str\<close> is a list of naturals here, not a list of bytes.
\<close>

type_synonym pystr = "nat list"

definition text_of :: "string \<Rightarrow> pystr" where
  "text_of s = map of_char s"

text \<open>
  The values \<open>json.load\<close> can return: \<open>None\<close>, \<open>bool\<close>, \<open>int\<close>, \<open>float\<close> (an
  IEEE double, kept as its 64 bits; the script never looks inside one), \<open>str\<close>,
  \<open>list\<close> and \<open>dict\<close> with \<open>str\<close> keys. A \<open>dict\<close> is an association list read
  through \<open>map_of\<close>: the entry nearest the head is the binding of a key.
\<close>

datatype pyval =
    PyNone
  | PyBool bool
  | PyInt int
  | PyFloat "64 word"
  | PyStr pystr
  | PyList "pyval list"
  | PyDict "(pystr \<times> pyval) list"

datatype error =
    FileNotFoundError
  | IsADirectoryError
  | PermissionError
  | UnicodeDecodeError
  | JSONDecodeError
  | KeyError pystr
  | TypeError
  | ValueError

text \<open>
  \<open>notebook["cells"]\<close>: subscription with a \<open>str\<close> key. A \<open>dict\<close> raises
  \<open>KeyError\<close> for a missing key; a \<open>list\<close> or a \<open>str\<close> takes integer indices only
  and every other value is not subscriptable: \<open>TypeError\<close> in both cases.
\<close>

fun getitem :: "pyval \<Rightarrow> pystr \<Rightarrow> error + pyval" where
  "getitem (PyDict kvs) k =
     (case map_of kvs k of None \<Rightarrow> Inl (KeyError k) | Some v \<Rightarrow> Inr v)"
| "getitem _ k = Inl TypeError"

text \<open>
  \<open>len(cells)\<close>: defined for \<open>list\<close>, \<open>str\<close> (code points) and \<open>dict\<close> (number of
  keys); \<open>TypeError\<close> for \<open>None\<close>, \<open>bool\<close>, \<open>int\<close> and \<open>float\<close>.
\<close>

fun py_len :: "pyval \<Rightarrow> error + int" where
  "py_len (PyList xs) = Inr (int (length xs))"
| "py_len (PyStr s) = Inr (int (length s))"
| "py_len (PyDict kvs) = Inr (int (length (remdups (map fst kvs))))"
| "py_len _ = Inl TypeError"

subsection \<open>Formatting the message\<close>

definition digit :: "nat \<Rightarrow> char" where
  "digit d = char_of (of_char CHR ''0'' + d)"

fun digits :: "nat \<Rightarrow> string" where
  "digits n = (if n < 10 then [digit n] else digits (n div 10) @ [digit (n mod 10)])"

declare digits.simps [simp del]

text \<open>\<open>{len(cells)}\<close> in the f-string: the decimal numeral of an \<open>int\<close>.\<close>

definition str_int :: "int \<Rightarrow> string" where
  "str_int i = (if i < 0 then CHR ''-'' # digits (nat (- i)) else digits (nat i))"

definition message :: "int \<Rightarrow> string" where
  "message n = ''Starting with '' @ str_int n @ '' cell(s)''"

subsection \<open>The world of the process\<close>

text \<open>
  A name in the working directory is absent, a directory, or a regular file with a
  read permission and its bytes.
\<close>

datatype node = Directory | Regular bool string

datatype event = Opened nat string | ReadAll nat | Closed nat | Printed string

text \<open>
  \<open>handles\<close> is the table of open file descriptors, each with the bytes of the file
  it was opened on; \<open>trace\<close> records every effect of the process in order. The
  argument vector and the environment are part of the world.
\<close>

record world =
  fs :: "string \<rightharpoonup> node"
  handles :: "(nat \<times> string) list"
  trace :: "event list"
  argv :: "string list"
  environ :: "string \<rightharpoonup> string"

definition emit :: "event \<Rightarrow> world \<Rightarrow> world" where
  "emit e w = w\<lparr>trace := trace w @ [e]\<rparr>"

text \<open>The lines written to standard output, in order.\<close>

fun stdout_of :: "event list \<Rightarrow> string list" where
  "stdout_of [] = []"
| "stdout_of (Printed s # es) = s # stdout_of es"
| "stdout_of (_ # es) = stdout_of es"

text \<open>The descriptors read from, in order.\<close>

fun reads_of :: "event list \<Rightarrow> nat list" where
  "reads_of [] = []"
| "reads_of (ReadAll fd # es) = fd # reads_of es"
| "reads_of (_ # es) = reads_of es"

text \<open>The lowest descriptor that is not in use.\<close>

definition lowest_free :: "nat list \<Rightarrow> nat" where
  "lowest_free used =
     (case find (\<lambda>n. n \<notin> set used) [0..<Suc (length used)] of
        Some n \<Rightarrow> n
      | None \<Rightarrow> Suc (length used))"

text \<open>\<open>open(path, 'r')\<close>: nothing is created; a failed open has no effect.\<close>

definition open_r :: "string \<Rightarrow> world \<Rightarrow> (error + nat) \<times> world" where
  "open_r path w =
     (case fs w path of
        None \<Rightarrow> (Inl FileNotFoundError, w)
      | Some Directory \<Rightarrow> (Inl IsADirectoryError, w)
      | Some (Regular readable bytes) \<Rightarrow>
          if readable then
            (let fd = lowest_free (map fst (handles w))
             in (Inr fd, emit (Opened fd path) (w\<lparr>handles := (fd, bytes) # handles w\<rparr>)))
          else (Inl PermissionError, w))"

text \<open>
  \<open>f.read()\<close> on a text-mode file: the bytes behind the descriptor, decoded with the
  encoding the runtime chose for the file object (the parameter \<open>decode\<close>). Reading
  a closed file raises \<open>ValueError\<close>.
\<close>

definition read_text ::
  "(string \<Rightarrow> pystr option) \<Rightarrow> nat \<Rightarrow> world \<Rightarrow> (error + pystr) \<times> world" where
  "read_text decode fd w =
     (case map_of (handles w) fd of
        None \<Rightarrow> (Inl ValueError, w)
      | Some bytes \<Rightarrow>
          (case decode bytes of
             None \<Rightarrow> (Inl UnicodeDecodeError, emit (ReadAll fd) w)
           | Some t \<Rightarrow> (Inr t, emit (ReadAll fd) w)))"

text \<open>
  \<open>json.load(f)\<close> is \<open>json.loads(f.read())\<close>. The standard library's parser is the
  parameter \<open>loads\<close>: \<open>None\<close> where it raises \<open>JSONDecodeError\<close>.
\<close>

definition json_load ::
  "(string \<Rightarrow> pystr option) \<Rightarrow> (pystr \<Rightarrow> pyval option) \<Rightarrow> nat \<Rightarrow> world
     \<Rightarrow> (error + pyval) \<times> world" where
  "json_load decode loads fd w =
     (case read_text decode fd w of
        (Inl e, w') \<Rightarrow> (Inl e, w')
      | (Inr t, w') \<Rightarrow>
          (case loads t of
             None \<Rightarrow> (Inl JSONDecodeError, w')
           | Some v \<Rightarrow> (Inr v, w')))"

definition close_fd :: "nat \<Rightarrow> world \<Rightarrow> world" where
  "close_fd fd w = emit (Closed fd) (w\<lparr>handles := filter (\<lambda>(k, _). k \<noteq> fd) (handles w)\<rparr>)"

definition notebook_path :: string where
  "notebook_path = ''CP-Math-Demosaic.ipynb''"

text \<open>
  Lines 5 and 6, the \<open>with\<close> block: when \<open>open\<close> raises, the block is not entered;
  once it is entered, the file is closed on the way out whether the body returned
  or raised, and the body's result or exception is passed on.
\<close>

definition read_notebook ::
  "(string \<Rightarrow> pystr option) \<Rightarrow> (pystr \<Rightarrow> pyval option) \<Rightarrow> world
     \<Rightarrow> (error + pyval) \<times> world" where
  "read_notebook decode loads w =
     (case open_r notebook_path w of
        (Inl e, w1) \<Rightarrow> (Inl e, w1)
      | (Inr f, w1) \<Rightarrow>
          (case json_load decode loads f w1 of
             (r, w2) \<Rightarrow> (r, close_fd f w2)))"

definition print_line :: "string \<Rightarrow> world \<Rightarrow> world" where
  "print_line s w = emit (Printed s) w"

text \<open>The whole module: \<open>Inl e\<close> is the uncaught exception \<open>e\<close>.\<close>

definition script ::
  "(string \<Rightarrow> pystr option) \<Rightarrow> (pystr \<Rightarrow> pyval option) \<Rightarrow> world
     \<Rightarrow> (error + unit) \<times> world" where
  "script decode loads w =
     (case read_notebook decode loads w of
        (Inl e, w1) \<Rightarrow> (Inl e, w1)
      | (Inr notebook, w1) \<Rightarrow>
          (case getitem notebook (text_of ''cells'') of
             Inl e \<Rightarrow> (Inl e, w1)
           | Inr cells \<Rightarrow>
               (case py_len cells of
                  Inl e \<Rightarrow> (Inl e, w1)
                | Inr n \<Rightarrow> (Inr (), print_line (message n) w1))))"

text \<open>
  The interpreter's exit status: 0 when the module ran to its end, 1 when an
  exception reached the top level.
\<close>

fun exit_status :: "error + unit \<Rightarrow> nat" where
  "exit_status (Inr _) = 0"
| "exit_status (Inl _) = 1"

text \<open>What one run adds to the trace of the world it started in.\<close>

definition run_events ::
  "(string \<Rightarrow> pystr option) \<Rightarrow> (pystr \<Rightarrow> pyval option) \<Rightarrow> world \<Rightarrow> event list" where
  "run_events decode loads w = drop (length (trace w)) (trace (snd (script decode loads w)))"

definition run_stdout ::
  "(string \<Rightarrow> pystr option) \<Rightarrow> (pystr \<Rightarrow> pyval option) \<Rightarrow> world \<Rightarrow> string list" where
  "run_stdout decode loads w = stdout_of (run_events decode loads w)"

text \<open>Running the script \<open>n\<close> times in a row, each run in the world the last one left.\<close>

fun runs :: "(string \<Rightarrow> pystr option) \<Rightarrow> (pystr \<Rightarrow> pyval option) \<Rightarrow> nat \<Rightarrow> world \<Rightarrow> world" where
  "runs decode loads 0 w = w"
| "runs decode loads (Suc n) w = runs decode loads n (snd (script decode loads w))"

subsection \<open>Summaries of a run\<close>

text \<open>The descriptor the next \<open>open\<close> returns.\<close>

definition new_fd :: "world \<Rightarrow> nat" where
  "new_fd w = lowest_free (map fst (handles w))"

text \<open>What \<open>json.load\<close> makes of the bytes of a file, without the world.\<close>

definition load_value ::
  "(string \<Rightarrow> pystr option) \<Rightarrow> (pystr \<Rightarrow> pyval option) \<Rightarrow> string \<Rightarrow> error + pyval" where
  "load_value decode loads bytes =
     (case decode bytes of
        None \<Rightarrow> Inl UnicodeDecodeError
      | Some t \<Rightarrow> (case loads t of None \<Rightarrow> Inl JSONDecodeError | Some v \<Rightarrow> Inr v))"

text \<open>
  The number the script computes from the directory entry of the notebook, or the
  exception that stops it.
\<close>

definition cell_count ::
  "(string \<Rightarrow> pystr option) \<Rightarrow> (pystr \<Rightarrow> pyval option) \<Rightarrow> node option \<Rightarrow> error + int" where
  "cell_count decode loads entry =
     (case entry of
        None \<Rightarrow> Inl FileNotFoundError
      | Some Directory \<Rightarrow> Inl IsADirectoryError
      | Some (Regular readable bytes) \<Rightarrow>
          if readable then
            (case load_value decode loads bytes of
               Inl e \<Rightarrow> Inl e
             | Inr notebook \<Rightarrow>
                 (case getitem notebook (text_of ''cells'') of
                    Inl e \<Rightarrow> Inl e
                  | Inr cells \<Rightarrow> py_len cells))
          else Inl PermissionError)"

text \<open>The events of the \<open>with\<close> block.\<close>

definition file_events :: "world \<Rightarrow> event list" where
  "file_events w =
     (case fs w notebook_path of
        Some (Regular True bytes) \<Rightarrow>
          [Opened (new_fd w) notebook_path, ReadAll (new_fd w), Closed (new_fd w)]
      | _ \<Rightarrow> [])"

text \<open>The events the \<open>with\<close> block adds to the trace of the world it started in.\<close>

definition read_events ::
  "(string \<Rightarrow> pystr option) \<Rightarrow> (pystr \<Rightarrow> pyval option) \<Rightarrow> world \<Rightarrow> event list" where
  "read_events decode loads w =
     drop (length (trace w)) (trace (snd (read_notebook decode loads w)))"

text \<open>The descriptors a sequence of events leaves open, starting with none.\<close>

definition held_after :: "event list \<Rightarrow> nat list" where
  "held_after es =
     foldl (\<lambda>held e. case e of Opened fd p \<Rightarrow> fd # held
                            | Closed fd \<Rightarrow> removeAll fd held
                            | _ \<Rightarrow> held) [] es"


text \<open>The number a string of decimal digits denotes.\<close>

definition decimal_value :: "string \<Rightarrow> nat" where
  "decimal_value s = foldl (\<lambda>a c. 10 * a + (of_char c - of_char CHR ''0'')) 0 s"

subsection \<open>Sample inputs\<close>

text \<open>The ASCII codec: UTF-8 and every ASCII-compatible locale encoding agree with it
  on ASCII bytes.\<close>

definition decode_ascii :: "string \<Rightarrow> pystr option" where
  "decode_ascii bytes =
     (if list_all (\<lambda>c. of_char c < (128::nat)) bytes then Some (text_of bytes) else None)"

definition doc_empty :: string where
  \<open>doc_empty = ''{"cells": []}''\<close>

definition doc_three :: string where
  \<open>doc_three = ''{"cells": [{}, {}, {}]}''\<close>

definition doc_other :: string where
  \<open>doc_other = ''{"nbformat": 4, "cells": [null, 1, "a"]}''\<close>

definition doc_no_cells :: string where
  \<open>doc_no_cells = ''{}''\<close>

definition doc_dict_cells :: string where
  \<open>doc_dict_cells = ''{"cells": {}}''\<close>

definition doc_int_cells :: string where
  \<open>doc_int_cells = ''{"cells": 7}''\<close>


text \<open>
  \<open>json.loads\<close> on the sample documents: each valid one with the value the parser
  returns for it; \<open>doc_truncated\<close> is not JSON. The table is only ever applied to
  those seven texts.
\<close>

definition sample_loads :: "pystr \<Rightarrow> pyval option" where
  "sample_loads t =
     (if t = text_of doc_empty then Some (PyDict [(text_of ''cells'', PyList [])])
      else if t = text_of doc_three then
        Some (PyDict [(text_of ''cells'', PyList [PyDict [], PyDict [], PyDict []])])
      else if t = text_of doc_other then
        Some (PyDict [(text_of ''nbformat'', PyInt 4),
                      (text_of ''cells'', PyList [PyNone, PyInt 1, PyStr (text_of ''a'')])])
      else if t = text_of doc_no_cells then Some (PyDict [])
      else if t = text_of doc_dict_cells then Some (PyDict [(text_of ''cells'', PyDict [])])
      else if t = text_of doc_int_cells then Some (PyDict [(text_of ''cells'', PyInt 7)])
      else None)"


text \<open>A working directory without the notebook.\<close>

definition empty_world :: world where
  "empty_world =
     \<lparr>fs = Map.empty, handles = [], trace = [],
      argv = [''build_demosaic_nb.py''], environ = Map.empty\<rparr>"


section \<open>Properties\<close>

subsection \<open>The with block and the whole run\<close>

lemma lowest_free_fresh: "lowest_free used \<notin> set used"
proof (cases "find (\<lambda>n. n \<notin> set used) [0..<Suc (length used)]")
  case None
  have "{0..<Suc (length used)} \<subseteq> set used"
  proof
    fix x assume "x \<in> {0..<Suc (length used)}"
    then have "x \<in> set [0..<Suc (length used)]" by (simp del: upt_Suc)
    with None show "x \<in> set used"
      unfolding find_None_iff by blast
  qed
  then have "card {0..<Suc (length used)} \<le> card (set used)"
    by (intro card_mono) simp_all
  moreover have "card (set used) \<le> length used"
    by (rule card_length)
  ultimately show ?thesis by simp
next
  case (Some n)
  then have "n \<notin> set used"
    by (auto simp: find_Some_iff)
  with Some show ?thesis
    by (simp add: lowest_free_def)
qed

lemma close_after_open:
  "fd \<notin> fst ` set hs \<Longrightarrow> filter (\<lambda>(k, _). k \<noteq> fd) hs = hs"
  by (induction hs) auto

lemma new_fd_fresh: "new_fd w \<notin> fst ` set (handles w)"
  using lowest_free_fresh [of "map fst (handles w)"] by (simp add: new_fd_def)

lemma read_notebook_absent:
  "fs w notebook_path = None \<Longrightarrow> read_notebook decode loads w = (Inl FileNotFoundError, w)"
  by (simp add: read_notebook_def open_r_def)

lemma read_notebook_directory:
  "fs w notebook_path = Some Directory \<Longrightarrow>
   read_notebook decode loads w = (Inl IsADirectoryError, w)"
  by (simp add: read_notebook_def open_r_def)

lemma read_notebook_unreadable:
  "fs w notebook_path = Some (Regular False bytes) \<Longrightarrow>
   read_notebook decode loads w = (Inl PermissionError, w)"
  by (simp add: read_notebook_def open_r_def)

lemma read_notebook_regular:
  assumes "fs w notebook_path = Some (Regular True bytes)"
  shows "read_notebook decode loads w =
    (load_value decode loads bytes,
     w\<lparr>trace := trace w @
        [Opened (new_fd w) notebook_path, ReadAll (new_fd w), Closed (new_fd w)]\<rparr>)"
  using assms new_fd_fresh [of w]
  by (simp add: read_notebook_def open_r_def json_load_def read_text_def close_fd_def
      emit_def load_value_def new_fd_def [symmetric] Let_def close_after_open
      split: option.splits)


lemma read_notebook_world:
  "snd (read_notebook decode loads w) = w\<lparr>trace := trace w @ file_events w\<rparr>"
proof (cases "fs w notebook_path")
  case None
  then show ?thesis
    by (simp add: read_notebook_absent file_events_def)
next
  case (Some nd)
  show ?thesis
  proof (cases nd)
    case Directory
    with Some show ?thesis
      by (simp add: read_notebook_directory file_events_def)
  next
    case (Regular readable bytes)
    with Some show ?thesis
      by (cases readable)
         (simp_all add: read_notebook_regular read_notebook_unreadable file_events_def)
  qed
qed

lemma script_result:
  "fst (script decode loads w) =
     (case cell_count decode loads (fs w notebook_path) of
        Inl e \<Rightarrow> Inl e | Inr n \<Rightarrow> Inr ())"
proof (cases "fs w notebook_path")
  case None
  then show ?thesis
    by (simp add: script_def read_notebook_absent cell_count_def)
next
  case (Some nd)
  show ?thesis
  proof (cases nd)
    case Directory
    with Some show ?thesis
      by (simp add: script_def read_notebook_directory cell_count_def)
  next
    case (Regular readable bytes)
    with Some show ?thesis
      by (cases readable)
         (simp_all add: script_def read_notebook_regular read_notebook_unreadable
            cell_count_def split: sum.splits)
  qed
qed

lemma script_world:
  "snd (script decode loads w) =
     w\<lparr>trace := trace w @ file_events w @
        (case cell_count decode loads (fs w notebook_path) of
           Inl e \<Rightarrow> [] | Inr n \<Rightarrow> [Printed (message n)])\<rparr>"
proof (cases "fs w notebook_path")
  case None
  then show ?thesis
    by (simp add: script_def read_notebook_absent cell_count_def file_events_def)
next
  case (Some nd)
  show ?thesis
  proof (cases nd)
    case Directory
    with Some show ?thesis
      by (simp add: script_def read_notebook_directory cell_count_def file_events_def)
  next
    case (Regular readable bytes)
    with Some show ?thesis
      by (cases readable)
         (simp_all add: script_def read_notebook_regular read_notebook_unreadable
            cell_count_def file_events_def print_line_def emit_def split: sum.splits)
  qed
qed

lemma run_events_eq:
  "run_events decode loads w = file_events w @
     (case cell_count decode loads (fs w notebook_path) of
        Inl e \<Rightarrow> [] | Inr n \<Rightarrow> [Printed (message n)])"
  by (simp add: run_events_def script_world)

lemma stdout_of_append: "stdout_of (xs @ ys) = stdout_of xs @ stdout_of ys"
  by (induction xs rule: stdout_of.induct) simp_all

lemma reads_of_append: "reads_of (xs @ ys) = reads_of xs @ reads_of ys"
  by (induction xs rule: reads_of.induct) simp_all

lemma stdout_of_file_events: "stdout_of (file_events w) = []"
  by (simp add: file_events_def split: option.splits node.splits bool.splits)

lemma run_stdout_eq:
  "run_stdout decode loads w =
     (case cell_count decode loads (fs w notebook_path) of
        Inl e \<Rightarrow> [] | Inr n \<Rightarrow> [message n])"
  by (simp add: run_stdout_def run_events_eq stdout_of_append stdout_of_file_events
      split: sum.splits)



lemma script_frame:
  "fs (snd (script decode loads w)) = fs w"
  "handles (snd (script decode loads w)) = handles w"
  "argv (snd (script decode loads w)) = argv w"
  "environ (snd (script decode loads w)) = environ w"
  "trace (snd (script decode loads w)) = trace w @ run_events decode loads w"
  by (simp_all add: script_world run_events_eq)

lemma runs_frame:
  "fs (runs decode loads n w) = fs w \<and> handles (runs decode loads n w) = handles w"
  by (induction n arbitrary: w) (simp_all add: script_frame)

lemma run_stdout_cong:
  "fs w1 notebook_path = fs w2 notebook_path \<Longrightarrow>
   run_stdout decode loads w1 = run_stdout decode loads w2"
  by (simp add: run_stdout_eq)

lemma script_result_cong:
  "fs w1 notebook_path = fs w2 notebook_path \<Longrightarrow>
   fst (script decode loads w1) = fst (script decode loads w2)"
  by (simp add: script_result)

lemma runs_stdout:
  "stdout_of (trace (runs decode loads n w)) =
     stdout_of (trace w) @ concat (replicate n (run_stdout decode loads w))"
proof (induction n arbitrary: w)
  case 0
  show ?case by simp
next
  case (Suc n)
  let ?w' = "snd (script decode loads w)"
  have same: "run_stdout decode loads ?w' = run_stdout decode loads w"
    by (rule run_stdout_cong) (simp add: script_frame)
  have "stdout_of (trace (runs decode loads (Suc n) w)) =
      stdout_of (trace ?w') @ concat (replicate n (run_stdout decode loads ?w'))"
    using Suc.IH [of ?w'] by simp
  also have "stdout_of (trace ?w') = stdout_of (trace w) @ run_stdout decode loads w"
    by (simp add: script_frame stdout_of_append run_stdout_def)
  finally show ?case
    by (simp add: same)
qed

lemma reads_of_file_events: "length (reads_of (file_events w)) \<le> 1"
  by (simp add: file_events_def split: option.splits node.splits bool.splits)


lemma parse_error_closes:
  assumes "fs w notebook_path = Some (Regular True bytes)"
    and "decode bytes = Some t" and "loads t = None"
  shows "read_notebook decode loads w =
    (Inl JSONDecodeError,
     w\<lparr>trace := trace w @
        [Opened (new_fd w) notebook_path, ReadAll (new_fd w), Closed (new_fd w)]\<rparr>)"
  using assms by (simp add: read_notebook_regular load_value_def)

subsection \<open>The decimal numeral\<close>

lemma of_char_digit: "d < 10 \<Longrightarrow> of_char (digit d) = 48 + d"
  by (simp add: digit_def)

lemma decimal_value_snoc:
  "decimal_value (s @ [c]) = 10 * decimal_value s + (of_char c - of_char CHR ''0'')"
  by (simp add: decimal_value_def)

lemma decimal_value_digits: "decimal_value (digits n) = n"
proof (induction n rule: digits.induct)
  case (1 n)
  show ?case
  proof (cases "n < 10")
    case True
    then show ?thesis
      by (simp add: digits.simps [of n] decimal_value_def of_char_digit)
  next
    case False
    then have "decimal_value (digits n) = 10 * (n div 10) + n mod 10"
      using "1.IH" by (simp add: digits.simps [of n] decimal_value_snoc of_char_digit)
    then show ?thesis by simp
  qed
qed

lemma digits_are_decimal:
  "list_all (\<lambda>c. 48 \<le> (of_char c :: nat) \<and> (of_char c :: nat) \<le> 57) (digits n)"
proof (induction n rule: digits.induct)
  case (1 n)
  show ?case
  proof (cases "n < 10")
    case True
    then show ?thesis
      by (simp add: digits.simps [of n] of_char_digit)
  next
    case False
    then show ?thesis
      using "1.IH" by (simp add: digits.simps [of n] of_char_digit)
  qed
qed

lemma str_int_nat: "str_int (int n) = digits n"
  by (simp add: str_int_def)

lemma decimal_value_str_int: "decimal_value (str_int (int n)) = n"
  by (simp add: str_int_nat decimal_value_digits)

section \<open>Behaviour of a run\<close>







text \<open>
  C4. When the working directory has no entry named \<open>CP-Math-Demosaic.ipynb\<close>,
  \<open>open\<close> raises \<open>FileNotFoundError\<close>, the exit status is 1, nothing is printed
  and the world is left as it was.
\<close>

theorem missing_file:
  assumes "fs w notebook_path = None"
  shows "fst (script decode loads w) = Inl FileNotFoundError
    \<and> exit_status (fst (script decode loads w)) = 1
    \<and> run_stdout decode loads w = []
    \<and> snd (script decode loads w) = w"
  using assms
  by (simp add: script_result script_world run_stdout_eq cell_count_def file_events_def)

theorem missing_file_witness:
  "fs empty_world notebook_path = None
   \<and> fst (script decode_ascii sample_loads empty_world) = Inl FileNotFoundError
   \<and> exit_status (fst (script decode_ascii sample_loads empty_world)) = 1
   \<and> run_stdout decode_ascii sample_loads empty_world = []
   \<and> snd (script decode_ascii sample_loads empty_world) = empty_world"
proof -
  have h: "fs empty_world notebook_path = None"
    by (simp add: empty_world_def)
  show ?thesis
    using missing_file [OF h, of decode_ascii sample_loads] h by simp
qed




text \<open>
  C6. Running the script again, any number of times, gives the same exception or
  normal end and the same standard output as the first run: the output is a function
  of the notebook's directory entry alone, and a run changes neither the files nor
  the table of open descriptors, so nothing builds up from run to run. After \<open>n\<close>
  runs standard output holds \<open>n\<close> copies of the output of one run.
\<close>

theorem rerun_same_output:
  "run_stdout decode loads w =
     (case cell_count decode loads (fs w notebook_path) of
        Inl e \<Rightarrow> [] | Inr k \<Rightarrow> [message k])
   \<and> run_stdout decode loads (runs decode loads n w) = run_stdout decode loads w
   \<and> fst (script decode loads (runs decode loads n w)) = fst (script decode loads w)
   \<and> fs (runs decode loads n w) = fs w
   \<and> handles (runs decode loads n w) = handles w
   \<and> stdout_of (trace (runs decode loads n w)) =
       stdout_of (trace w) @ concat (replicate n (run_stdout decode loads w))"
proof -
  have f: "fs (runs decode loads n w) notebook_path = fs w notebook_path"
    by (simp add: runs_frame)
  show ?thesis
    using run_stdout_cong [OF f] script_result_cong [OF f]
    by (simp add: runs_frame runs_stdout run_stdout_eq)
qed

text \<open>
  C7. On every path a run changes nothing of the world but its trace: the files
  are as before. The events it adds hold at most one read of a file and at most one
  printed line.
\<close>

theorem no_filesystem_change:
  "snd (script decode loads w) = w\<lparr>trace := trace w @ run_events decode loads w\<rparr>
   \<and> fs (snd (script decode loads w)) = fs w
   \<and> length (reads_of (run_events decode loads w)) \<le> 1
   \<and> length (run_stdout decode loads w) \<le> 1"
proof -
  have "length (reads_of (run_events decode loads w)) = length (reads_of (file_events w))"
    by (simp add: run_events_eq reads_of_append split: sum.splits)
  then have r: "length (reads_of (run_events decode loads w)) \<le> 1"
    using reads_of_file_events [of w] by simp
  have p: "length (run_stdout decode loads w) \<le> 1"
    by (simp add: run_stdout_eq split: sum.splits)
  show ?thesis
    using r p by (simp add: script_world run_events_eq)
qed





text \<open>
  C10. When control leaves the \<open>with\<close> block, by its end or by an exception of
  \<open>json.load\<close> (\<open>parse_error_closes\<close> shows the events of that path), the table
  of open descriptors is what it was before \<open>open\<close>: the events of the block leave
  no descriptor open, and the descriptor \<open>open\<close> returned is not in the table.
\<close>

theorem handle_released:
  "handles (snd (read_notebook decode loads w)) = handles w
   \<and> held_after (read_events decode loads w) = []
   \<and> new_fd w \<notin> fst ` set (handles (snd (read_notebook decode loads w)))"
proof -
  have e: "read_events decode loads w = file_events w"
    by (simp add: read_events_def read_notebook_world)
  have h: "held_after (file_events w) = []"
    by (simp add: held_after_def file_events_def
        split: option.splits node.splits bool.splits)
  show ?thesis
    using new_fd_fresh [of w] by (simp add: e h read_notebook_world)
qed

end
